theory Spec2Isabelle
  imports Main
begin

section \<open>JavaScript values, strings and errors\<close>

text \<open>
  The modules exchange structured-cloneable data by \<^verbatim>\<open>postMessage\<close>. A value is one of
  the primitives, an array, a plain object (its own properties in insertion order), an
  \<^verbatim>\<open>Error\<close> object (name and message), a \<^verbatim>\<open>Blob\<close> (MIME type and bytes) or an
  \<^verbatim>\<open>ArrayBuffer\<close>. Numbers are the integers (\<^verbatim>\<open>Date.now()\<close>, array indices); strings
  are lists of characters.
\<close>

datatype js_error = JsError (err_name: string) (err_message: string)

datatype jsval =
    Undefined
  | Null
  | Bool bool
  | Num int
  | Str string
  | Arr "jsval list"
  | Obj "(string \<times> jsval) list"
  | ErrorObj js_error
  | Blob string "nat list"
  | ArrayBuffer "nat list"

text \<open>Truthiness, as \<^verbatim>\<open>if (x)\<close>, \<^verbatim>\<open>x && ...\<close> and \<^verbatim>\<open>!x\<close> test it.\<close>

fun truthy :: "jsval \<Rightarrow> bool" where
  "truthy Undefined = False"
| "truthy Null = False"
| "truthy (Bool b) = b"
| "truthy (Num n) = (n \<noteq> 0)"
| "truthy (Str s) = (s \<noteq> [])"
| "truthy _ = True"

text \<open>\<^verbatim>\<open>structuredClone\<close> copies a value; on immutable data the copy is the value.\<close>

definition structuredClone :: "jsval \<Rightarrow> jsval" where
  "structuredClone v = v"

text \<open>Decimal digits of a number, as \<^verbatim>\<open>"$" + (index + 1)\<close> and template literals print it.\<close>

fun show_nat :: "nat \<Rightarrow> string" where
  "show_nat n = (if n < 10 then [char_of (48 + n)] else show_nat (n div 10) @ [char_of (48 + n mod 10)])"

declare show_nat.simps [simp del]

definition show_int :: "int \<Rightarrow> string" where
  "show_int i = (if i < 0 then CHR ''-'' # show_nat (nat (- i)) else show_nat (nat i))"

fun join_comma :: "string list \<Rightarrow> string" where
  "join_comma [] = []"
| "join_comma [s] = s"
| "join_comma (s # t # ss) = s @ CHR '','' # join_comma (t # ss)"

text \<open>\<^verbatim>\<open>ToString\<close>, used by template literals and by property keys.\<close>

fun js_toString :: "jsval \<Rightarrow> string" where
  "js_toString Undefined = ''undefined''"
| "js_toString Null = ''null''"
| "js_toString (Bool b) = (if b then ''true'' else ''false'')"
| "js_toString (Num n) = show_int n"
| "js_toString (Str s) = s"
| "js_toString (Arr xs) =
     join_comma (map (\<lambda>x. if x = Undefined \<or> x = Null then [] else js_toString x) xs)"
| "js_toString (Obj fs) = ''[object Object]''"
| "js_toString (ErrorObj e) =
     (if err_name e = [] then err_message e
      else if err_message e = [] then err_name e
      else err_name e @ '': '' @ err_message e)"
| "js_toString (Blob t bs) = ''[object Blob]''"
| "js_toString (ArrayBuffer bs) = ''[object ArrayBuffer]''"

text \<open>
  Reading a property \<^verbatim>\<open>x.k\<close>, or destructuring \<^verbatim>\<open>const { k } = x\<close>, for the property
  names the modules read: a \<^verbatim>\<open>TypeError\<close> on \<^verbatim>\<open>undefined\<close> and \<^verbatim>\<open>null\<close>, the
  property's value where the value has it, and \<^verbatim>\<open>undefined\<close> otherwise. A later
  duplicate of a key in an object literal overrides an earlier one.
\<close>

definition obj_lookup :: "(string \<times> jsval) list \<Rightarrow> string \<Rightarrow> jsval" where
  "obj_lookup fs k = (case map_of (rev fs) k of None \<Rightarrow> Undefined | Some v \<Rightarrow> v)"

fun get_prop :: "jsval \<Rightarrow> string \<Rightarrow> js_error + jsval" where
  "get_prop Undefined k = Inl (JsError ''TypeError'' (''Cannot read properties of undefined (reading '' @ k @ '')''))"
| "get_prop Null k = Inl (JsError ''TypeError'' (''Cannot read properties of null (reading '' @ k @ '')''))"
| "get_prop (Obj fs) k = Inr (obj_lookup fs k)"
| "get_prop (ErrorObj e) k =
     Inr (if k = ''name'' then Str (err_name e) else if k = ''message'' then Str (err_message e) else Undefined)"
| "get_prop (Blob t bs) k =
     Inr (if k = ''type'' then Str t else if k = ''size'' then Num (int (length bs)) else Undefined)"
| "get_prop (ArrayBuffer bs) k = Inr (if k = ''byteLength'' then Num (int (length bs)) else Undefined)"
| "get_prop (Str s) k = Inr (if k = ''length'' then Num (int (length s)) else Undefined)"
| "get_prop (Arr xs) k = Inr (if k = ''length'' then Num (int (length xs)) else Undefined)"
| "get_prop v k = Inr Undefined"

text \<open>\<^verbatim>\<open>s.indexOf(pat)\<close>: the first position at which \<open>pat\<close> occurs, \<open>None\<close> for \<open>-1\<close>.\<close>

fun starts_with :: "string \<Rightarrow> string \<Rightarrow> bool" where
  "starts_with s [] = True"
| "starts_with [] (p # ps) = False"
| "starts_with (c # cs) (p # ps) = (c = p \<and> starts_with cs ps)"

fun indexOf :: "string \<Rightarrow> string \<Rightarrow> nat option" where
  "indexOf [] pat = (if pat = [] then Some 0 else None)"
| "indexOf (c # cs) pat =
     (if starts_with (c # cs) pat then Some 0 else map_option Suc (indexOf cs pat))"

text \<open>
  The replacement text of \<^verbatim>\<open>String.prototype.replace\<close> with a string pattern:
  \<^verbatim>\<open>$$\<close> is a dollar sign, \<^verbatim>\<open>$&\<close> the matched text, \<^verbatim>\<open>$`\<close> the text before the match
  and \<^verbatim>\<open>$'\<close> the text after it; a string pattern has no captures, so every other
  \<^verbatim>\<open>$\<close> stands for itself.
\<close>

fun getSubstitution :: "string \<Rightarrow> string \<Rightarrow> string \<Rightarrow> string \<Rightarrow> string" where
  "getSubstitution matched pre post [] = []"
| "getSubstitution matched pre post [c] = [c]"
| "getSubstitution matched pre post (c # d # r) =
     (if c = CHR ''$'' \<and> d = CHR ''$'' then CHR ''$'' # getSubstitution matched pre post r
      else if c = CHR ''$'' \<and> d = CHR ''&'' then matched @ getSubstitution matched pre post r
      else if c = CHR ''$'' \<and> d = CHR 0x60 then pre @ getSubstitution matched pre post r
      else if c = CHR ''$'' \<and> d = CHR 0x27 then post @ getSubstitution matched pre post r
      else c # getSubstitution matched pre post (d # r))"

text \<open>\<^verbatim>\<open>s.replace(pat, repl)\<close> with a string pattern replaces the first occurrence only.\<close>

definition js_replace :: "string \<Rightarrow> string \<Rightarrow> string \<Rightarrow> string" where
  "js_replace s pat repl =
     (case indexOf s pat of
        None \<Rightarrow> s
      | Some i \<Rightarrow>
          take i s @ getSubstitution pat (take i s) (drop (i + length pat) s) repl
            @ drop (i + length pat) s)"

section \<open>The worker: src/src/sqlite/sqliteWorker.js\<close>

text \<open>
  What a handler does to the outside is recorded as a list of effects, in program order:
  console output, messages a worker posts to the main side, calls of the wrapped library
  and, on the main side, messages posted to a worker, workers constructed and terminated,
  and data sent on a broadcast channel.
\<close>

type_synonym db = nat

datatype libcall =
    InitModule
  | NewOpfsDb string
  | NewDB string string
  | DbExec db jsval jsval
  | DbExport

datatype effect =
    ConsoleLog "jsval list"
  | ConsoleError "jsval list"
  | PostMessage jsval
  | LibCall libcall
  | PostToWorker nat jsval
  | NewWorker nat
  | TerminateWorker nat
  | Broadcast string jsval

text \<open>
  The wrapped library is outside the repository; a handler run is given what each of its
  calls does: \<^verbatim>\<open>sqlite3InitModule\<close> rejects with an error or resolves with a module that
  has the \<^verbatim>\<open>opfs\<close> property or not; a constructor throws or gives a database handle;
  \<^verbatim>\<open>db.exec\<close> throws or returns a value.
\<close>

record lib =
  sqlite3InitModule :: "js_error + bool"
  new_OpfsDb :: "string \<Rightarrow> js_error + db"
  new_DB :: "string \<Rightarrow> string \<Rightarrow> js_error + db"
  db_exec :: "db \<Rightarrow> jsval \<Rightarrow> jsval \<Rightarrow> js_error + jsval"

text \<open>
  An identifier that no scope of the module declares is looked up in the global scope of
  the host. \<open>global_bound\<close> says which such names the host binds; a reference to an
  unbound name throws a \<^verbatim>\<open>ReferenceError\<close>. Where the worker's globals \<^verbatim>\<open>sqlite3\<close> and
  \<^verbatim>\<open>db\<close> are bound, \<open>global_export\<close> is what
  \<^verbatim>\<open>sqlite3.capi.sqlite3_js_db_export(db)\<close> does: it throws, or returns the bytes.
  Where the main side's global \<^verbatim>\<open>getWorker\<close> is bound, \<open>global_getWorker\<close> is what
  \<^verbatim>\<open>await getWorker()\<close> gives: an error, \<^verbatim>\<open>undefined\<close>, or a worker.
\<close>

record host =
  global_bound :: "string \<Rightarrow> bool"
  global_export :: "js_error + nat list"
  global_getWorker :: "js_error + nat option"

text \<open>The error of a reference to an unbound name, with the message of V8 and
  SpiderMonkey.\<close>

definition ReferenceError :: "string \<Rightarrow> js_error" where
  "ReferenceError x = JsError ''ReferenceError'' (x @ '' is not defined'')"

text \<open>The result of a handler run: its effects, the module variable \<^verbatim>\<open>instance\<close>
  afterwards, and the error with which the handler's promise rejects, if it does.\<close>

record handled =
  effects :: "effect list"
  new_instance :: "db option"
  uncaught :: "js_error option"

text \<open>
  \<^verbatim>\<open>getInstance(tries)\<close>. The poll function \<^verbatim>\<open>checkAgain\<close> has a parameter of its own
  that is also called \<^verbatim>\<open>tries\<close>; it is what the guard \<^verbatim>\<open>tries > tryCount++\<close> reads.
  The parameter is \<open>None\<close> when the caller passes no argument (\<^verbatim>\<open>undefined\<close>), and
  \<^verbatim>\<open>undefined > n\<close> is false.
\<close>

datatype poll = Resolve db | Retry | Reject js_error

definition js_gt :: "int option \<Rightarrow> int \<Rightarrow> bool" where
  "js_gt a n = (case a of None \<Rightarrow> False | Some m \<Rightarrow> m > n)"

definition getInstance_checkAgain :: "db option \<Rightarrow> int option \<Rightarrow> poll" where
  "getInstance_checkAgain instance tries =
     (let tryCount = 0 in
      case instance of
        Some d \<Rightarrow> Resolve d
      | None \<Rightarrow> if js_gt tries tryCount then Retry else Reject (JsError ''Error'' ''not working''))"

text \<open>
  The executor calls \<^verbatim>\<open>checkAgain()\<close>, and \<^verbatim>\<open>setTimeout(checkAgain, 0)\<close> calls it again
  later, both without an argument. \<open>instances k\<close> is the value of \<^verbatim>\<open>instance\<close> at the
  \<open>k\<close>-th poll. The result is \<open>None\<close> when the polling never ends.
\<close>

partial_function (option) getInstance_poll :: "(nat \<Rightarrow> db option) \<Rightarrow> nat \<Rightarrow> (js_error + db) option" where
  "getInstance_poll instances k =
     (case getInstance_checkAgain (instances k) None of
        Resolve d \<Rightarrow> Some (Inr d)
      | Reject e \<Rightarrow> Some (Inl e)
      | Retry \<Rightarrow> getInstance_poll instances (Suc k))"

definition getInstance :: "int \<Rightarrow> (nat \<Rightarrow> db option) \<Rightarrow> (js_error + db) option" where
  "getInstance tries instances = getInstance_poll instances 0"

text \<open>A property read that follows a successful read of the same value cannot throw.\<close>

definition field :: "jsval \<Rightarrow> string \<Rightarrow> jsval" where
  "field v k = (case get_prop v k of Inl e \<Rightarrow> Undefined | Inr x \<Rightarrow> x)"

text \<open>The \<^verbatim>\<open>.catch\<close> of \<^verbatim>\<open>createDatabase\<close> and \<^verbatim>\<open>uploadDatabase\<close>: print the error's
  name and message; the promise resolves with \<^verbatim>\<open>undefined\<close> (\<open>None\<close>).\<close>

definition catch_print :: "effect list \<Rightarrow> js_error \<Rightarrow> effect list \<times> (db \<times> string) option" where
  "catch_print es err = (es @ [ConsoleError [Str (err_name err), Str (err_message err)]], None)"

definition createDatabase :: "lib \<Rightarrow> jsval \<Rightarrow> effect list \<times> (db \<times> string) option" where
  "createDatabase L name =
     (let file = ''/'' @ js_toString name @ ''.sqlite3'' in
      case sqlite3InitModule L of
        Inl err \<Rightarrow> catch_print [LibCall InitModule] err
      | Inr opfs \<Rightarrow>
          if opfs then
            (case new_OpfsDb L file of
               Inl err \<Rightarrow> catch_print [LibCall InitModule, LibCall (NewOpfsDb file)] err
             | Inr d \<Rightarrow>
                 ([LibCall InitModule, LibCall (NewOpfsDb file)],
                  Some (d, ''OPFS is available, created persisted database at '' @ file)))
          else
            (case new_DB L file ''ct'' of
               Inl err \<Rightarrow> catch_print [LibCall InitModule, LibCall (NewDB file ''ct'')] err
             | Inr d \<Rightarrow>
                 ([LibCall InitModule, LibCall (NewDB file ''ct'')],
                  Some (d, ''OPFS is not available, created transient database '' @ file))))"

definition uploadDatabase :: "lib \<Rightarrow> jsval \<Rightarrow> jsval \<Rightarrow> effect list \<times> (db \<times> string) option" where
  "uploadDatabase L name arrayBuffer =
     (let file = ''/'' @ js_toString name @ ''.sqlite3'' in
      case sqlite3InitModule L of
        Inl err \<Rightarrow> catch_print [LibCall InitModule] err
      | Inr opfs \<Rightarrow>
          if opfs then
            (case new_OpfsDb L file of
               Inl err \<Rightarrow> catch_print [LibCall InitModule, LibCall (NewOpfsDb file)] err
             | Inr d \<Rightarrow>
                 (case get_prop arrayBuffer ''byteLength'' of
                    Inl err \<Rightarrow> catch_print [LibCall InitModule, LibCall (NewOpfsDb file)] err
                  | Inr n \<Rightarrow>
                      ([LibCall InitModule, LibCall (NewOpfsDb file)],
                       Some (d, ''New DB imported as '' @ js_toString name @ ''.sqlite3. (''
                                  @ js_toString n @ '' Bytes)''))))
          else catch_print [LibCall InitModule] (JsError ''Error'' ''unsupported''))"

text \<open>Destructuring the \<^verbatim>\<open>undefined\<close> that a caught failure resolves with.\<close>

definition destructure_undefined :: js_error where
  "destructure_undefined =
     JsError ''TypeError'' ''Cannot destructure property db of undefined''"

definition case_createDB :: "lib \<Rightarrow> db option \<Rightarrow> jsval \<Rightarrow> handled" where
  "case_createDB L instance data =
     (case createDatabase L (field data ''name'') of
        (es, None) \<Rightarrow>
          \<lparr>effects = es, new_instance = instance, uncaught = Some destructure_undefined\<rparr>
      | (es, Some (d, message)) \<Rightarrow>
          \<lparr>effects = es @ [ConsoleLog [Str message]], new_instance = Some d, uncaught = None\<rparr>)"

definition case_uploadDB :: "lib \<Rightarrow> db option \<Rightarrow> jsval \<Rightarrow> handled" where
  "case_uploadDB L instance data =
     (case uploadDatabase L (field data ''name'') (field data ''arrayBuffer'') of
        (es, None) \<Rightarrow>
          \<lparr>effects = es @ [ConsoleError [ErrorObj destructure_undefined]],
           new_instance = instance, uncaught = None\<rparr>
      | (es, Some (d, message)) \<Rightarrow>
          \<lparr>effects = es @ [ConsoleLog [Str message]], new_instance = Some d, uncaught = None\<rparr>)"

definition NOMEM_notice :: jsval where
  "NOMEM_notice = Obj [(''type'', Str ''application/vnd.sqlite3''), (''error'', Str ''SQLITE_NOMEM'')]"

text \<open>The \<^verbatim>\<open>catch\<close> clause of the \<^verbatim>\<open>downloadDB\<close> case.\<close>

definition downloadDB_catch :: "effect list \<Rightarrow> js_error \<Rightarrow> effect list" where
  "downloadDB_catch es e =
     (if indexOf (err_message e) ''SQLITE_NOMEM'' \<noteq> None then es @ [PostMessage NOMEM_notice]
      else es @ [ConsoleError [ErrorObj e]])"

text \<open>
  The \<^verbatim>\<open>downloadDB\<close> case reads \<^verbatim>\<open>sqlite3\<close> and then \<^verbatim>\<open>db\<close>. No scope around the
  case declares either name: the \<^verbatim>\<open>db\<close> of the other cases are block-scoped constants
  of their own blocks, and \<^verbatim>\<open>sqlite3\<close> is only a parameter of the callbacks in
  \<^verbatim>\<open>createDatabase\<close> and \<^verbatim>\<open>uploadDatabase\<close>. Both are global references.
\<close>

definition case_downloadDB :: "host \<Rightarrow> db option \<Rightarrow> handled" where
  "case_downloadDB h instance =
     \<lparr>effects =
        (if \<not> global_bound h ''sqlite3'' then downloadDB_catch [] (ReferenceError ''sqlite3'')
         else if \<not> global_bound h ''db'' then downloadDB_catch [] (ReferenceError ''db'')
         else
           (case global_export h of
              Inl e \<Rightarrow> downloadDB_catch [LibCall DbExport] e
            | Inr bytes \<Rightarrow>
                [LibCall DbExport, PostMessage (Blob ''application/vnd.sqlite3'' bytes)])),
      new_instance = instance, uncaught = None\<rparr>"

text \<open>
  The \<^verbatim>\<open>executeQuery\<close> case. While \<^verbatim>\<open>getInstance(1)\<close> polls, the handler run is
  suspended; the run is modelled from its start, with the \<^verbatim>\<open>instance\<close> of that moment.
  A poll that never ends leaves the run suspended after its first effect.
\<close>

definition case_executeQuery :: "lib \<Rightarrow> db option \<Rightarrow> jsval \<Rightarrow> handled" where
  "case_executeQuery L instance data =
     (let sql = field data ''sql''; returnValue = field data ''returnValue'' in
      case getInstance 1 (\<lambda>k. instance) of
        None \<Rightarrow> \<lparr>effects = [ConsoleLog [sql]], new_instance = instance, uncaught = None\<rparr>
      | Some (Inl e) \<Rightarrow> \<lparr>effects = [ConsoleLog [sql]], new_instance = instance, uncaught = Some e\<rparr>
      | Some (Inr d) \<Rightarrow>
          (case db_exec L d sql returnValue of
             Inl e \<Rightarrow>
               \<lparr>effects = [ConsoleLog [sql], LibCall (DbExec d sql returnValue)],
                new_instance = instance, uncaught = Some e\<rparr>
           | Inr result \<Rightarrow>
               \<lparr>effects =
                  [ConsoleLog [sql], LibCall (DbExec d sql returnValue),
                   PostMessage (Obj [(''timestamp'', field data ''timestamp''),
                                     (''result'', structuredClone result),
                                     (''type'', Str ''application/json'')])],
                new_instance = instance, uncaught = None\<rparr>))"

text \<open>The \<^verbatim>\<open>switch (action)\<close> of the worker's \<^verbatim>\<open>onmessage\<close>.\<close>

datatype branch = CreateDB | UploadDB | DownloadDB | ExecuteQuery | Default

definition dispatch :: "jsval \<Rightarrow> branch" where
  "dispatch action =
     (if action = Str ''createDB'' then CreateDB
      else if action = Str ''uploadDB'' then UploadDB
      else if action = Str ''downloadDB'' then DownloadDB
      else if action = Str ''executeQuery'' then ExecuteQuery
      else Default)"

definition onmessage :: "host \<Rightarrow> lib \<Rightarrow> db option \<Rightarrow> jsval \<Rightarrow> handled" where
  "onmessage h L instance data =
     (case get_prop data ''action'' of
        Inl e \<Rightarrow> \<lparr>effects = [], new_instance = instance, uncaught = Some e\<rparr>
      | Inr action \<Rightarrow>
          (case dispatch action of
             CreateDB \<Rightarrow> case_createDB L instance data
           | UploadDB \<Rightarrow> case_uploadDB L instance data
           | DownloadDB \<Rightarrow> case_downloadDB h instance
           | ExecuteQuery \<Rightarrow> case_executeQuery L instance data
           | Default \<Rightarrow>
               \<lparr>effects = [ConsoleLog [data]], new_instance = instance, uncaught = None\<rparr>))"

section \<open>The main side: src/src/sqlite/index.js\<close>

text \<open>
  The mapping \<^verbatim>\<open>returnValues\<close> is an object created by \<^verbatim>\<open>{}\<close>: it has its own
  properties and a prototype, at first \<^verbatim>\<open>Object.prototype\<close>. The module writes it
  under the key of an arbitrary value, and reads and deletes it under the key of a number.
\<close>

datatype prototype = ObjectPrototype | NullPrototype | ReplacedBy jsval

record js_dict =
  own :: "string \<rightharpoonup> jsval"
  proto :: prototype

definition empty_dict :: js_dict where
  "empty_dict = \<lparr>own = Map.empty, proto = ObjectPrototype\<rparr>"

fun is_object :: "jsval \<Rightarrow> bool" where
  "is_object (Arr xs) = True"
| "is_object (Obj fs) = True"
| "is_object (ErrorObj e) = True"
| "is_object (Blob t bs) = True"
| "is_object (ArrayBuffer bs) = True"
| "is_object v = False"

text \<open>
  What a value used as prototype contributes to an assignment: the built-in prototypes of
  \<^verbatim>\<open>Blob\<close> and \<^verbatim>\<open>ArrayBuffer\<close> have accessor properties without a setter, and assigning
  to such a name throws in module code; a plain object can have an own property called
  \<^verbatim>\<open>__proto__\<close>, which hides the accessor of that name on \<^verbatim>\<open>Object.prototype\<close>.
\<close>

fun getter_only :: "jsval \<Rightarrow> string \<Rightarrow> bool" where
  "getter_only (Blob t bs) k = (k = ''size'' \<or> k = ''type'')"
| "getter_only (ArrayBuffer bs) k =
     (k = ''byteLength'' \<or> k = ''maxByteLength'' \<or> k = ''resizable'' \<or> k = ''detached'')"
| "getter_only v k = False"

fun has_own_proto_key :: "jsval \<Rightarrow> bool" where
  "has_own_proto_key (Obj fs) = (''__proto__'' \<in> set (map fst fs))"
| "has_own_proto_key v = False"

text \<open>The setter of \<^verbatim>\<open>Object.prototype.__proto__\<close>: an object or \<^verbatim>\<open>null\<close> becomes the
  prototype, any other value is ignored.\<close>

definition set_prototype :: "js_dict \<Rightarrow> jsval \<Rightarrow> js_dict" where
  "set_prototype rv v =
     (if is_object v then rv\<lparr>proto := ReplacedBy v\<rparr>
      else if v = Null then rv\<lparr>proto := NullPrototype\<rparr>
      else rv)"

definition cannot_set :: "string \<Rightarrow> js_error" where
  "cannot_set k = JsError ''TypeError'' (''Cannot set property '' @ k @ '' which has only a getter'')"

text \<open>
  \<^verbatim>\<open>rv[k] = v\<close>. An own property is overwritten. Otherwise the prototype chain is
  searched for \<open>k\<close>: an accessor without setter makes the assignment throw, the
  accessor \<^verbatim>\<open>__proto__\<close> of \<^verbatim>\<open>Object.prototype\<close> replaces the prototype and stores
  nothing, and in every other case a new own property is created.
\<close>

definition dict_set :: "js_dict \<Rightarrow> string \<Rightarrow> jsval \<Rightarrow> js_error + js_dict" where
  "dict_set rv k v =
     (if own rv k \<noteq> None then Inr (rv\<lparr>own := (own rv)(k \<mapsto> v)\<rparr>)
      else
        (case proto rv of
           NullPrototype \<Rightarrow> Inr (rv\<lparr>own := (own rv)(k \<mapsto> v)\<rparr>)
         | ObjectPrototype \<Rightarrow>
             if k = ''__proto__'' then Inr (set_prototype rv v)
             else Inr (rv\<lparr>own := (own rv)(k \<mapsto> v)\<rparr>)
         | ReplacedBy p \<Rightarrow>
             if getter_only p k then Inl (cannot_set k)
             else if k = ''__proto__'' \<and> \<not> has_own_proto_key p then Inr (set_prototype rv v)
             else Inr (rv\<lparr>own := (own rv)(k \<mapsto> v)\<rparr>)))"

text \<open>
  \<^verbatim>\<open>rv[timestamp]\<close> for a number: the own property under the number's decimal key, or
  else what the prototype has under that key. \<^verbatim>\<open>Object.prototype\<close> and the other
  built-in prototypes have no property with a decimal name; an array has its elements.
\<close>

fun inherited :: "jsval \<Rightarrow> int \<Rightarrow> jsval" where
  "inherited (Obj fs) timestamp = obj_lookup fs (show_int timestamp)"
| "inherited (Arr xs) timestamp =
     (if 0 \<le> timestamp \<and> nat timestamp < length xs then xs ! nat timestamp else Undefined)"
| "inherited v timestamp = Undefined"

definition dict_get :: "js_dict \<Rightarrow> int \<Rightarrow> jsval" where
  "dict_get rv timestamp =
     (case own rv (show_int timestamp) of
        Some v \<Rightarrow> v
      | None \<Rightarrow>
          (case proto rv of
             ReplacedBy p \<Rightarrow> inherited p timestamp
           | _ \<Rightarrow> Undefined))"

text \<open>\<^verbatim>\<open>delete rv[timestamp]\<close> removes the own property, if there is one.\<close>

definition dict_delete :: "js_dict \<Rightarrow> int \<Rightarrow> js_dict" where
  "dict_delete rv timestamp = rv\<lparr>own := (own rv)(show_int timestamp := None)\<rparr>"

text \<open>
  The module's variables: the registry \<^verbatim>\<open>workers\<close>, an object used as a dictionary
  (its own properties, keyed by strings), and \<^verbatim>\<open>returnValues\<close>. Worker objects are
  numbered in the order of their construction.
\<close>

record main_state =
  workers :: "string \<rightharpoonup> nat"
  returnValues :: js_dict
  spawned :: nat

record outcome =
  out_effects :: "effect list"
  out_state :: main_state
  thrown :: "js_error option"

text \<open>The handler that \<^verbatim>\<open>initalizeWorker\<close> installs on every worker it constructs.\<close>

definition main_onmessage :: "jsval \<Rightarrow> main_state \<Rightarrow> outcome" where
  "main_onmessage data s =
     (case get_prop data ''type'' of
        Inl e \<Rightarrow> \<lparr>out_effects = [], out_state = s, thrown = Some e\<rparr>
      | Inr type \<Rightarrow>
          if type = Str ''application/vnd.sqlite3'' then
            \<lparr>out_effects = [Broadcast ''download_channel'' data], out_state = s, thrown = None\<rparr>
          else if type = Str ''application/json'' then
            (case dict_set (returnValues s) (js_toString (field data ''timestamp''))
                    (structuredClone (field data ''result'')) of
               Inl e \<Rightarrow> \<lparr>out_effects = [], out_state = s, thrown = Some e\<rparr>
             | Inr rv \<Rightarrow>
                 \<lparr>out_effects = [], out_state = s\<lparr>returnValues := rv\<rparr>, thrown = None\<rparr>)
          else
            \<lparr>out_effects = [ConsoleLog [Str ''Response from worker: '', field data ''message'']],
             out_state = s, thrown = None\<rparr>)"

definition initalizeWorker :: "jsval \<Rightarrow> main_state \<Rightarrow> effect list \<times> main_state" where
  "initalizeWorker name s =
     (let worker = spawned s; s1 = s\<lparr>spawned := Suc (spawned s)\<rparr> in
      case workers s (js_toString name) of
        Some taken \<Rightarrow>
          ([NewWorker worker, ConsoleError [Str ''InstantiationError: already taken''],
            TerminateWorker worker], s1)
      | None \<Rightarrow> ([NewWorker worker], s1\<lparr>workers := (workers s)(js_toString name \<mapsto> worker)\<rparr>))"

definition postMessage_of_undefined :: js_error where
  "postMessage_of_undefined =
     JsError ''TypeError'' ''Cannot read properties of undefined (reading postMessage)''"

definition api_getWorker :: "jsval \<Rightarrow> main_state \<Rightarrow> nat option" where
  "api_getWorker name s = workers s (js_toString name)"

definition api_createDB :: "jsval \<Rightarrow> main_state \<Rightarrow> outcome" where
  "api_createDB name s =
     (case initalizeWorker name s of
        (es, s1) \<Rightarrow>
          (case api_getWorker name s1 of
             None \<Rightarrow> \<lparr>out_effects = es, out_state = s1, thrown = Some postMessage_of_undefined\<rparr>
           | Some worker \<Rightarrow>
               \<lparr>out_effects =
                  es @ [PostToWorker worker (Obj [(''action'', Str ''createDB''), (''name'', name)])],
                out_state = s1, thrown = None\<rparr>))"

definition api_downloadDB :: "jsval \<Rightarrow> main_state \<Rightarrow> outcome" where
  "api_downloadDB name s =
     (case workers s (js_toString name) of
        None \<Rightarrow> \<lparr>out_effects = [], out_state = s, thrown = None\<rparr>
      | Some worker \<Rightarrow>
          \<lparr>out_effects = [PostToWorker worker (Obj [(''action'', Str ''downloadDB'')])],
           out_state = s, thrown = None\<rparr>)"

text \<open>\<^verbatim>\<open>fileName.split(".")\<close>.\<close>

fun split_on :: "char \<Rightarrow> string \<Rightarrow> string list" where
  "split_on c [] = [[]]"
| "split_on c (x # xs) =
     (if x = c then [] # split_on c xs
      else (case split_on c xs of [] \<Rightarrow> [[x]] | p # ps \<Rightarrow> (x # p) # ps))"

text \<open>
  \<^verbatim>\<open>uploadDB\<close> assigns to \<^verbatim>\<open>worker\<close> without declaring it: in a module this throws a
  \<^verbatim>\<open>ReferenceError\<close> unless the host has a global of that name. Where it has one and no
  worker is registered under the name, the variable is \<^verbatim>\<open>undefined\<close> when
  \<^verbatim>\<open>worker.postMessage\<close> is reached.
\<close>

definition api_uploadDB :: "host \<Rightarrow> string \<Rightarrow> jsval \<Rightarrow> main_state \<Rightarrow> outcome" where
  "api_uploadDB h fileName arrayBuffer s =
     (let parts = split_on CHR ''.'' fileName;
          name = (case parts of [] \<Rightarrow> Undefined | n # r \<Rightarrow> Str n);
          extension = (case parts of n # e # r \<Rightarrow> Str e | _ \<Rightarrow> Undefined) in
      if extension = Str ''sqlite3'' then
        (if \<not> global_bound h ''worker'' then
           \<lparr>out_effects = [], out_state = s, thrown = Some (ReferenceError ''worker'')\<rparr>
         else
           (case workers s (js_toString name) of
              Some worker \<Rightarrow> \<lparr>out_effects = [], out_state = s, thrown = None\<rparr>
            | None \<Rightarrow>
                (case initalizeWorker name s of
                   (es, s1) \<Rightarrow>
                     \<lparr>out_effects = es, out_state = s1, thrown = Some postMessage_of_undefined\<rparr>)))
      else
        \<lparr>out_effects = [ConsoleError [Str ''unsupported file type'']], out_state = s,
         thrown = None\<rparr>)"

text \<open>
  The top-level gate that assigns \<^verbatim>\<open>publicAPI\<close>, and the default export that reads it
  afterwards. \<open>window_Worker\<close> is the truth value of \<^verbatim>\<open>window.Worker\<close>; the second
  argument is what the awaited \<^verbatim>\<open>sqlite3InitModule\<close> does: it rejects with an error, or
  resolves with a module whose \<^verbatim>\<open>version.libVersion\<close> is the given string.
\<close>

datatype api_object = EmptyObject | Api

definition unsupported_notice :: string where
  "unsupported_notice = ''Your browser doesn'' @ [CHR 0x27] @ ''t support web workers.''"

definition index_default_export :: "bool \<Rightarrow> js_error + string \<Rightarrow> effect list \<times> api_object" where
  "index_default_export window_Worker init =
     (let publicAPI = EmptyObject in
      if window_Worker then
        (case init of
           Inr libVersion \<Rightarrow>
             ([LibCall InitModule, ConsoleLog [Str ''Running SQLite3 version'', Str libVersion]], Api)
         | Inl err \<Rightarrow>
             ([LibCall InitModule,
               ConsoleError [Str ''Initialization error:'', Str (err_name err), Str (err_message err)]],
              publicAPI))
      else ([ConsoleError [Str unsupported_notice]], publicAPI))"

text \<open>The same gate in the draft src/unnamed/part_000.\<close>

definition draft_default_export :: "bool \<Rightarrow> js_error + string \<Rightarrow> effect list \<times> api_object" where
  "draft_default_export window_Worker init =
     (let publicAPI = EmptyObject in
      if window_Worker then
        (case init of
           Inr libVersion \<Rightarrow>
             ([LibCall InitModule, ConsoleLog [Str ''Running SQLite3 version'', Str libVersion]], Api)
         | Inl err \<Rightarrow>
             ([LibCall InitModule,
               ConsoleError [Str ''Initialization error:'', Str (err_name err), Str (err_message err)]],
              publicAPI))
      else ([ConsoleError [Str unsupported_notice]], publicAPI))"

text \<open>The callback of \<^verbatim>\<open>values.forEach\<close>, and the loop over the array with its index.\<close>

definition replacePlaceholder :: "string \<Rightarrow> jsval \<Rightarrow> nat \<Rightarrow> string" where
  "replacePlaceholder queryString item index =
     js_replace queryString (CHR ''$'' # show_nat (index + 1))
       ([CHR 0x27] @ js_toString item @ [CHR 0x27])"

fun forEach_replacePlaceholder :: "string \<Rightarrow> jsval list \<Rightarrow> nat \<Rightarrow> string" where
  "forEach_replacePlaceholder queryString [] index = queryString"
| "forEach_replacePlaceholder queryString (item # items) index =
     forEach_replacePlaceholder (replacePlaceholder queryString item index) items (Suc index)"

text \<open>
  \<^verbatim>\<open>await getWorker()\<close> in the two exported functions: the module declares no
  \<^verbatim>\<open>getWorker\<close> (the function of that name is a property of \<^verbatim>\<open>api\<close>), so the name is a
  global reference.
\<close>

definition await_getWorker :: "host \<Rightarrow> js_error + nat option" where
  "await_getWorker h =
     (if global_bound h ''getWorker'' then global_getWorker h else Inl (ReferenceError ''getWorker''))"

text \<open>
  The promise that \<^verbatim>\<open>executeQuery\<close> returns: rejected, fulfilled, or pending and polling
  \<^verbatim>\<open>returnValues\<close> under a timestamp.
\<close>

datatype promise = Pending int | Fulfilled jsval | Rejected js_error

text \<open>One run of the poll \<^verbatim>\<open>checkAgain\<close> of \<^verbatim>\<open>executeQuery\<close>: \<open>Some v\<close> is
  \<^verbatim>\<open>resolve(v)\<close>, \<open>None\<close> is \<^verbatim>\<open>setTimeout(checkAgain, 0)\<close>.\<close>

definition executeQuery_checkAgain :: "js_dict \<Rightarrow> int \<Rightarrow> jsval option" where
  "executeQuery_checkAgain rv timestamp =
     (if truthy (dict_get rv timestamp) then Some (structuredClone (dict_get rv timestamp))
      else None)"


definition exec_message :: "int \<Rightarrow> string \<Rightarrow> jsval" where
  "exec_message timestamp queryString =
     Obj [(''timestamp'', Num timestamp), (''type'', Str ''exec''), (''sql'', Str queryString),
          (''returnValue'', Str ''resultRows'')]"

record call =
  call_effects :: "effect list"
  call_state :: main_state
  call_promise :: promise

text \<open>
  \<^verbatim>\<open>executeQuery({ text, values })\<close> up to the return of its promise: \<open>now\<close> is the value
  of \<^verbatim>\<open>Date.now()\<close>, \<open>values\<close> is \<open>None\<close> for \<^verbatim>\<open>undefined\<close>. The executor runs the
  first poll at once; the \<^verbatim>\<open>finally\<close> clause runs when the promise is returned.
\<close>

definition executeQuery :: "host \<Rightarrow> int \<Rightarrow> string \<Rightarrow> jsval list option \<Rightarrow> main_state \<Rightarrow> call" where
  "executeQuery h now text values s =
     (let queryString =
            (case values of
               None \<Rightarrow> text
             | Some vs \<Rightarrow>
                 if indexOf text ''$'' \<noteq> None then forEach_replacePlaceholder text vs 0 else text) in
      case await_getWorker h of
        Inl e \<Rightarrow> \<lparr>call_effects = [], call_state = s, call_promise = Rejected e\<rparr>
      | Inr None \<Rightarrow>
          \<lparr>call_effects = [], call_state = s, call_promise = Rejected postMessage_of_undefined\<rparr>
      | Inr (Some worker) \<Rightarrow>
          (let timestamp = now in
           \<lparr>call_effects = [PostToWorker worker (exec_message timestamp queryString)],
            call_state = s\<lparr>returnValues := dict_delete (returnValues s) timestamp\<rparr>,
            call_promise =
              (case executeQuery_checkAgain (returnValues s) timestamp of
                 Some v \<Rightarrow> Fulfilled v
               | None \<Rightarrow> Pending timestamp)\<rparr>))"

text \<open>
  \<^verbatim>\<open>executeQuerySync({ text, values })\<close>; \<open>JSON_stringify\<close> is the host's
  \<^verbatim>\<open>JSON.stringify\<close>. The result is the effects and the error of a rejection, if any.
\<close>

definition sync_message :: "string \<Rightarrow> jsval" where
  "sync_message queryString =
     Obj [(''type'', Str ''exec''), (''sql'', Str queryString), (''returnValue'', Str ''resultRows'')]"

definition executeQuerySync ::
  "(jsval \<Rightarrow> string) \<Rightarrow> host \<Rightarrow> string \<Rightarrow> jsval list option \<Rightarrow> effect list \<times> js_error option" where
  "executeQuerySync JSON_stringify h text values =
     (let queryString =
            (case values of
               None \<Rightarrow> text
             | Some vs \<Rightarrow>
                 if indexOf text ''$'' = None then forEach_replacePlaceholder text vs 0 else text);
          message = sync_message queryString in
      case await_getWorker h of
        Inl e \<Rightarrow> ([], Some e)
      | Inr None \<Rightarrow> ([], Some postMessage_of_undefined)
      | Inr (Some worker) \<Rightarrow> ([PostToWorker worker (Str (JSON_stringify message))], None))"

section \<open>Main side and workers together\<close>

text \<open>
  The messages in flight and the state of both sides. A step is one task of an event
  loop: a call of one of the module's functions, a poll of a pending \<^verbatim>\<open>executeQuery\<close>
  promise that fulfils it, a worker handling a message posted to it, or the main side
  handling a message a worker posted. Every worker runs sqliteWorker.js; the host and
  the library may behave differently at every step.
\<close>

record system =
  main :: main_state
  to_workers :: "(nat \<times> jsval) list"
  to_main :: "jsval list"
  instance_of :: "nat \<Rightarrow> db option"
  promises :: "promise list"

fun to_worker_posts :: "effect list \<Rightarrow> (nat \<times> jsval) list" where
  "to_worker_posts [] = []"
| "to_worker_posts (PostToWorker w d # es) = (w, d) # to_worker_posts es"
| "to_worker_posts (e # es) = to_worker_posts es"

fun to_main_posts :: "effect list \<Rightarrow> jsval list" where
  "to_main_posts [] = []"
| "to_main_posts (PostMessage d # es) = d # to_main_posts es"
| "to_main_posts (e # es) = to_main_posts es"

definition initial :: system where
  "initial =
     \<lparr>main = \<lparr>workers = Map.empty, returnValues = empty_dict, spawned = 0\<rparr>,
      to_workers = [], to_main = [], instance_of = (\<lambda>w. None), promises = []\<rparr>"

definition after_api :: "system \<Rightarrow> outcome \<Rightarrow> system" where
  "after_api S r = S\<lparr>main := out_state r, to_workers := to_workers S @ to_worker_posts (out_effects r)\<rparr>"

inductive step :: "system \<Rightarrow> system \<Rightarrow> bool" where
  call_executeQuery:
    "c = executeQuery h now text values (main S) \<Longrightarrow>
     step S (S\<lparr>main := call_state c,
               to_workers := to_workers S @ to_worker_posts (call_effects c),
               promises := promises S @ [call_promise c]\<rparr>)"
| call_executeQuerySync:
    "step S (S\<lparr>to_workers :=
               to_workers S @ to_worker_posts (fst (executeQuerySync JSON_stringify h text values))\<rparr>)"
| call_createDB: "step S (after_api S (api_createDB name (main S)))"
| call_downloadDB: "step S (after_api S (api_downloadDB name (main S)))"
| call_uploadDB: "step S (after_api S (api_uploadDB h fileName arrayBuffer (main S)))"
| poll_fulfils:
    "i < length (promises S) \<Longrightarrow> promises S ! i = Pending timestamp \<Longrightarrow>
     executeQuery_checkAgain (returnValues (main S)) timestamp = Some v \<Longrightarrow>
     step S (S\<lparr>promises := (promises S)[i := Fulfilled v]\<rparr>)"
| worker_handles:
    "to_workers S = earlier @ (w, data) # later \<Longrightarrow>
     r = onmessage h L (instance_of S w) data \<Longrightarrow>
     step S (S\<lparr>to_workers := earlier @ later,
               to_main := to_main S @ to_main_posts (effects r),
               instance_of := (instance_of S)(w := new_instance r)\<rparr>)"
| main_handles:
    "to_main S = earlier @ data # later \<Longrightarrow>
     step S (S\<lparr>to_main := earlier @ later, main := out_state (main_onmessage data (main S))\<rparr>)"

inductive reachable :: "system \<Rightarrow> bool" where
  reachable_initial: "reachable initial"
| reachable_step: "reachable S \<Longrightarrow> step S S' \<Longrightarrow> reachable S'"

section \<open>The pooled worker draft of src/README.md\<close>

definition MAX_POOL_SIZE :: nat where
  "MAX_POOL_SIZE = 4"

text \<open>\<^verbatim>\<open>dbPool.pop()\<close>: the last element, or \<^verbatim>\<open>undefined\<close> on the empty array.\<close>

definition pool_pop :: "db list \<Rightarrow> db option \<times> db list" where
  "pool_pop dbPool = (if dbPool = [] then (None, []) else (Some (last dbPool), butlast dbPool))"

text \<open>
  \<^verbatim>\<open>getDbConnection\<close>: \<open>created\<close> is what \<^verbatim>\<open>await createDbInstance()\<close> gives, an error
  or the new instance; \<open>meanwhile\<close> is what other tasks do to the pool while the call
  waits. The result is the rejection or the returned value, and the pool afterwards.
\<close>

definition getDbConnection ::
  "js_error + db \<Rightarrow> (db list \<Rightarrow> db list) \<Rightarrow> db list \<Rightarrow> (js_error + db option) \<times> db list" where
  "getDbConnection created meanwhile dbPool =
     (if length dbPool < MAX_POOL_SIZE then
        (case created of
           Inl e \<Rightarrow> (Inl e, meanwhile dbPool)
         | Inr db \<Rightarrow> (case pool_pop (meanwhile dbPool @ [db]) of (r, p) \<Rightarrow> (Inr r, p)))
      else (case pool_pop dbPool of (r, p) \<Rightarrow> (Inr r, p)))"

text \<open>\<^verbatim>\<open>releaseDbConnection\<close>: the pool afterwards, and whether the connection was closed.\<close>

definition releaseDbConnection :: "db \<Rightarrow> db list \<Rightarrow> db list \<times> bool" where
  "releaseDbConnection db dbPool =
     (if length dbPool < MAX_POOL_SIZE then (dbPool @ [db], False) else (dbPool, True))"

section \<open>Predicates on messages and states\<close>

fun message_fields :: "jsval \<Rightarrow> string list" where
  "message_fields (Obj fs) = map fst fs"
| "message_fields v = []"

text \<open>A message that the worker's switch sends to its \<^verbatim>\<open>executeQuery\<close> case, and a
  message that the main side's switch stores in \<^verbatim>\<open>returnValues\<close>.\<close>

definition asks_query :: "jsval \<Rightarrow> bool" where
  "asks_query d = (get_prop d ''action'' = Inr (Str ''executeQuery''))"

definition is_json_reply :: "jsval \<Rightarrow> bool" where
  "is_json_reply d = (get_prop d ''type'' = Inr (Str ''application/json''))"

definition fulfilled :: "promise \<Rightarrow> bool" where
  "fulfilled p = (case p of Fulfilled v \<Rightarrow> True | _ \<Rightarrow> False)"

text \<open>No query is on its way to a worker, no reply on its way back, nothing is stored
  and no promise is fulfilled.\<close>

definition quiet :: "system \<Rightarrow> bool" where
  "quiet S =
     (returnValues (main S) = empty_dict \<and>
      list_all (\<lambda>(w, d). \<not> asks_query d) (to_workers S) \<and>
      list_all (\<lambda>d. \<not> is_json_reply d) (to_main S) \<and>
      list_all (\<lambda>p. \<not> fulfilled p) (promises S))"

section \<open>Hosts and libraries of the examples\<close>

text \<open>A host that binds none of the global names the modules refer to.\<close>

definition plain_host :: host where
  "plain_host =
     \<lparr>global_bound = (\<lambda>x. False), global_export = Inr [], global_getWorker = Inr None\<rparr>"

text \<open>A host whose page defines a global \<^verbatim>\<open>getWorker\<close> that returns worker 0.\<close>

definition page_host :: host where
  "page_host =
     \<lparr>global_bound = (\<lambda>x. x = ''getWorker''), global_export = Inr [],
      global_getWorker = Inr (Some 0)\<rparr>"


definition working_lib :: lib where
  "working_lib =
     \<lparr>sqlite3InitModule = Inr True,
      new_OpfsDb = (\<lambda>file. Inr 1), new_DB = (\<lambda>file flags. Inr 2),
      db_exec = (\<lambda>d sql returnValue. Inr (Arr []))\<rparr>"

definition instance_stays_null :: "nat \<Rightarrow> db option" where
  "instance_stays_null k = None"

text \<open>The state after one call of \<^verbatim>\<open>executeQuery\<close> on a page whose \<^verbatim>\<open>getWorker\<close>
  returns worker 0.\<close>

definition one_call :: system where
  "one_call =
     initial\<lparr>main := call_state (executeQuery page_host 5 ''SELECT 1'' None (main initial)),
             to_workers :=
               to_workers initial
                 @ to_worker_posts (call_effects (executeQuery page_host 5 ''SELECT 1'' None (main initial))),
             promises :=
               promises initial @ [call_promise (executeQuery page_host 5 ''SELECT 1'' None (main initial))]\<rparr>"




section \<open>Failures of a handler run, and runs of the main side\<close>








section \<open>Lemmas about the model\<close>

subsection \<open>Polling, strings and the pool\<close>

lemma getInstance_poll_first:
  "getInstance_poll instances k =
     Some (case instances k of None \<Rightarrow> Inl (JsError ''Error'' ''not working'') | Some d \<Rightarrow> Inr d)"
  by (subst getInstance_poll.simps)
     (simp add: getInstance_checkAgain_def js_gt_def split: option.split)

lemma starts_with_Cons_notin: "c \<notin> set s \<Longrightarrow> \<not> starts_with s (c # p)"
  by (cases s) auto

lemma indexOf_notin: "c \<notin> set s \<Longrightarrow> indexOf s (c # p) = None"
  by (induction s) (auto simp: starts_with_Cons_notin)

lemma indexOf_single_None: "indexOf s [c] = None \<Longrightarrow> c \<notin> set s"
  by (induction s) (auto split: if_splits)

lemma replacePlaceholder_noop:
  "indexOf q ''$'' = None \<Longrightarrow> replacePlaceholder q item i = q"
  by (simp add: replacePlaceholder_def js_replace_def indexOf_notin indexOf_single_None)

lemma forEach_replacePlaceholder_noop:
  "indexOf q ''$'' = None \<Longrightarrow> forEach_replacePlaceholder q items i = q"
  by (induction items arbitrary: i) (simp_all add: replacePlaceholder_noop)

lemma pool_pop_snoc: "pool_pop (p @ [d]) = (Some d, p)"
  by (simp add: pool_pop_def)

subsection \<open>No step of the system produces a reply\<close>

lemma to_main_posts_append: "to_main_posts (xs @ ys) = to_main_posts xs @ to_main_posts ys"
  by (induction xs rule: to_main_posts.induct) simp_all

lemma to_worker_posts_append: "to_worker_posts (xs @ ys) = to_worker_posts xs @ to_worker_posts ys"
  by (induction xs rule: to_worker_posts.induct) simp_all

lemma createDatabase_posts: "to_main_posts (fst (createDatabase L name)) = []"
  by (simp add: createDatabase_def catch_print_def Let_def split: sum.split)

lemma uploadDatabase_posts: "to_main_posts (fst (uploadDatabase L name buf)) = []"
  by (simp add: uploadDatabase_def catch_print_def Let_def split: sum.split)

lemma case_createDB_posts: "to_main_posts (effects (case_createDB L i data)) = []"
  using createDatabase_posts [of L "field data ''name''"]
  by (auto simp: case_createDB_def to_main_posts_append split: prod.split option.split)

lemma case_uploadDB_posts: "to_main_posts (effects (case_uploadDB L i data)) = []"
  using uploadDatabase_posts [of L "field data ''name''" "field data ''arrayBuffer''"]
  by (auto simp: case_uploadDB_def to_main_posts_append split: prod.split option.split)

lemma case_downloadDB_posts:
  "list_all (\<lambda>d. \<not> is_json_reply d) (to_main_posts (effects (case_downloadDB h i)))"
  by (simp add: case_downloadDB_def downloadDB_catch_def to_main_posts_append is_json_reply_def
      NOMEM_notice_def obj_lookup_def split: sum.split)

lemma dispatch_ExecuteQuery: "dispatch a = ExecuteQuery \<longleftrightarrow> a = Str ''executeQuery''"
  by (simp add: dispatch_def)

lemma onmessage_no_reply:
  "\<not> asks_query data \<Longrightarrow>
   list_all (\<lambda>d. \<not> is_json_reply d) (to_main_posts (effects (onmessage h L i data)))"
  using dispatch_ExecuteQuery
  by (auto simp: onmessage_def asks_query_def case_createDB_posts case_uploadDB_posts
      case_downloadDB_posts split: sum.split branch.split)

lemma main_onmessage_keeps:
  "\<not> is_json_reply data \<Longrightarrow> returnValues (out_state (main_onmessage data s)) = returnValues s"
  by (auto simp: main_onmessage_def is_json_reply_def split: sum.split)

lemma exec_message_no_action: "get_prop (exec_message n q) ''action'' = Inr Undefined"
  by (simp add: exec_message_def obj_lookup_def)

lemma executeQuery_posts:
  "list_all (\<lambda>(w, d). \<not> asks_query d) (to_worker_posts (call_effects (executeQuery h now text values s)))"
  by (simp add: executeQuery_def Let_def asks_query_def exec_message_no_action
      split: sum.split option.split)

lemma executeQuery_checkAgain_empty: "executeQuery_checkAgain empty_dict timestamp = None"
  by (simp add: executeQuery_checkAgain_def dict_get_def empty_dict_def)

lemma dict_delete_empty: "dict_delete empty_dict timestamp = empty_dict"
  by (simp add: dict_delete_def empty_dict_def)

lemma executeQuery_quiet:
  "returnValues s = empty_dict \<Longrightarrow>
   returnValues (call_state (executeQuery h now text values s)) = empty_dict \<and>
   \<not> fulfilled (call_promise (executeQuery h now text values s))"
  by (simp add: executeQuery_def Let_def executeQuery_checkAgain_empty dict_delete_empty
      fulfilled_def split: sum.split option.split)

lemma executeQuerySync_posts:
  "list_all (\<lambda>(w, d). \<not> asks_query d) (to_worker_posts (fst (executeQuerySync J h text values)))"
  by (simp add: executeQuerySync_def Let_def asks_query_def split: sum.split option.split)

lemma initalizeWorker_quiet:
  "initalizeWorker name s = (es, s1) \<Longrightarrow>
   returnValues s1 = returnValues s \<and> to_worker_posts es = []"
  by (auto simp: initalizeWorker_def Let_def split: option.splits)

lemma api_createDB_quiet:
  "returnValues (out_state (api_createDB name s)) = returnValues s \<and>
   list_all (\<lambda>(w, d). \<not> asks_query d) (to_worker_posts (out_effects (api_createDB name s)))"
  by (auto simp: api_createDB_def to_worker_posts_append asks_query_def obj_lookup_def
      dest: initalizeWorker_quiet split: prod.split option.split)

lemma api_downloadDB_quiet:
  "returnValues (out_state (api_downloadDB name s)) = returnValues s \<and>
   list_all (\<lambda>(w, d). \<not> asks_query d) (to_worker_posts (out_effects (api_downloadDB name s)))"
  by (auto simp: api_downloadDB_def asks_query_def obj_lookup_def split: option.split)

lemma api_uploadDB_quiet:
  "returnValues (out_state (api_uploadDB h fileName buf s)) = returnValues s \<and>
   to_worker_posts (out_effects (api_uploadDB h fileName buf s)) = []"
  by (auto simp: api_uploadDB_def Let_def dest: initalizeWorker_quiet
      split: prod.split option.split list.split)

lemma quiet_initial: "quiet initial"
  by (simp add: quiet_def initial_def)

lemma quiet_step: "step S S' \<Longrightarrow> quiet S \<Longrightarrow> quiet S'"
proof (induction rule: step.induct)
  case (call_executeQuery c h now query vals S)
  then show ?case
    using executeQuery_posts [of h now query vals "main S"]
          executeQuery_quiet [of "main S" h now query vals]
    by (simp add: quiet_def)
next
  case (call_executeQuerySync S JSON_stringify h query vals)
  then show ?case
    using executeQuerySync_posts [of JSON_stringify h query vals]
    by (simp add: quiet_def)
next
  case (call_createDB S name)
  then show ?case
    using api_createDB_quiet [of name "main S"] by (simp add: quiet_def after_api_def)
next
  case (call_downloadDB S name)
  then show ?case
    using api_downloadDB_quiet [of name "main S"] by (simp add: quiet_def after_api_def)
next
  case (call_uploadDB S h fileName arrayBuffer)
  then show ?case
    using api_uploadDB_quiet [of h fileName arrayBuffer "main S"]
    by (simp add: quiet_def after_api_def)
next
  case (poll_fulfils i S timestamp v)
  then show ?case
    by (simp add: quiet_def executeQuery_checkAgain_empty)
next
  case (worker_handles S earlier w data later r h L)
  then show ?case
    using onmessage_no_reply [of data h L "instance_of S w"]
    by (simp add: quiet_def)
next
  case (main_handles S earlier data later)
  then show ?case
    using main_onmessage_keeps [of data "main S"] by (simp add: quiet_def)
qed

lemma reachable_quiet: "reachable S \<Longrightarrow> quiet S"
  by (induction rule: reachable.induct) (auto intro: quiet_initial quiet_step)

lemma one_call_eval:
  "promises one_call = [Pending 5] \<and> to_workers one_call = [(0, exec_message 5 ''SELECT 1'')]"
  by code_simp

subsection \<open>Runs of the worker's handler\<close>













subsection \<open>Decimal keys\<close>











subsection \<open>The object \<^verbatim>\<open>returnValues\<close> and the polling\<close>



















subsection \<open>Error paths of the worker\<close>






section \<open>The claims\<close>

text \<open>
  C1. Whatever \<^verbatim>\<open>executeQuery\<close> posts to a worker is a message with the fields
  \<^verbatim>\<open>timestamp\<close>, \<^verbatim>\<open>type\<close> (\<^verbatim>\<open>"exec"\<close>), \<^verbatim>\<open>sql\<close> and \<^verbatim>\<open>returnValue\<close> and no
  \<^verbatim>\<open>action\<close> field. The worker dispatches on \<^verbatim>\<open>data.action\<close>, so the message reaches
  the default branch: the worker logs it and posts no reply. In every state that index.js
  and its workers can reach by the module's own functions and handlers, no promise
  returned by \<^verbatim>\<open>executeQuery\<close> is fulfilled, and a new call returns a promise that is not
  fulfilled either.
\<close>

theorem exec_message_is_never_answered:
  "reachable S \<Longrightarrow>
   (\<exists>q. call_effects (executeQuery h now text values (main S)) =
           (case await_getWorker h of
              Inr (Some worker) \<Rightarrow> [PostToWorker worker (exec_message now q)]
            | _ \<Rightarrow> [])) \<and>
   message_fields (exec_message now q') = [''timestamp'', ''type'', ''sql'', ''returnValue''] \<and>
   get_prop (exec_message now q') ''type'' = Inr (Str ''exec'') \<and>
   get_prop (exec_message now q') ''action'' = Inr Undefined \<and>
   onmessage h' L instance (exec_message now q') =
     \<lparr>effects = [ConsoleLog [exec_message now q']], new_instance = instance, uncaught = None\<rparr> \<and>
   \<not> fulfilled (call_promise (executeQuery h now text values (main S))) \<and>
   list_all (\<lambda>p. \<not> fulfilled p) (promises S)"
proof -
  assume r: "reachable S"
  then have q: "quiet S" by (rule reachable_quiet)
  have posts: "\<exists>q. call_effects (executeQuery h now text values (main S)) =
           (case await_getWorker h of
              Inr (Some worker) \<Rightarrow> [PostToWorker worker (exec_message now q)]
            | _ \<Rightarrow> [])"
    by (auto simp: executeQuery_def Let_def split: sum.split option.split)
  have fields: "message_fields (exec_message now q') = [''timestamp'', ''type'', ''sql'', ''returnValue'']"
    by (simp add: exec_message_def)
  have ty: "get_prop (exec_message now q') ''type'' = Inr (Str ''exec'')"
    by (simp add: exec_message_def obj_lookup_def)
  have handled: "onmessage h' L instance (exec_message now q') =
     \<lparr>effects = [ConsoleLog [exec_message now q']], new_instance = instance, uncaught = None\<rparr>"
    by (simp add: onmessage_def exec_message_no_action dispatch_def)
  have pending: "\<not> fulfilled (call_promise (executeQuery h now text values (main S)))"
    using q executeQuery_quiet [of "main S" h now "text" "values"] by (simp add: quiet_def)
  have all: "list_all (\<lambda>p. \<not> fulfilled p) (promises S)"
    using q by (simp add: quiet_def)
  show ?thesis
    using posts fields ty exec_message_no_action [of now q'] handled pending all by blast
qed

theorem exec_message_is_never_answered_witness:
  "reachable one_call \<and>
   promises one_call = [Pending 5] \<and>
   to_workers one_call = [(0, exec_message 5 ''SELECT 1'')] \<and>
   onmessage plain_host working_lib (Some 2) (exec_message 5 ''SELECT 1'') =
     \<lparr>effects = [ConsoleLog [exec_message 5 ''SELECT 1'']], new_instance = Some 2, uncaught = None\<rparr> \<and>
   list_all (\<lambda>p. \<not> fulfilled p) (promises one_call)"
proof -
  have "step initial one_call"
    unfolding one_call_def by (rule step.call_executeQuery) (rule refl)
  with reachable_initial have r: "reachable one_call" by (rule reachable_step)
  show ?thesis
    using r one_call_eval
      exec_message_is_never_answered [OF r, of page_host 5 "''SELECT 1''" None "''SELECT 1''" plain_host working_lib "Some 2"]
    by simp
qed



text \<open>A reply whose timestamp is \<^verbatim>\<open>"__proto__"\<close> stores no entry: its result becomes the
  prototype of \<^verbatim>\<open>returnValues\<close>, and a read finds what the result has under the number.\<close>

lemma proto_reply_example:
  "own (returnValues (out_state (main_onmessage
      (Obj [(''timestamp'', Str ''__proto__''), (''result'', Obj [(''5'', Arr [])]),
            (''type'', Str ''application/json'')]) (main initial)))) ''__proto__'' = None \<and>
   dict_get (returnValues (out_state (main_onmessage
      (Obj [(''timestamp'', Str ''__proto__''), (''result'', Obj [(''5'', Arr [])]),
            (''type'', Str ''application/json'')]) (main initial)))) 5 = Arr []"
  by code_simp

text \<open>
  In a host that binds no global \<^verbatim>\<open>getWorker\<close>, a call of \<^verbatim>\<open>executeQuery\<close> rejects at
  \<^verbatim>\<open>await getWorker()\<close>: nothing is posted and \<^verbatim>\<open>returnValues\<close> is not touched.
\<close>

lemma executeQuery_in_plain_host:
  "call_effects (executeQuery plain_host now text values s) = [] \<and>
   call_promise (executeQuery plain_host now text values s) = Rejected (ReferenceError ''getWorker'') \<and>
   call_state (executeQuery plain_host now text values s) = s"
  by (simp add: executeQuery_def await_getWorker_def plain_host_def Let_def)

text \<open>
  C3, as amended. In \<^verbatim>\<open>getInstance\<close> the counter \<^verbatim>\<open>tryCount\<close> is declared inside
  \<^verbatim>\<open>checkAgain\<close>, but the guard \<^verbatim>\<open>tries > tryCount++\<close> reads the parameter \<^verbatim>\<open>tries\<close>
  of \<^verbatim>\<open>checkAgain\<close> itself, which hides the argument of \<^verbatim>\<open>getInstance\<close> and is
  \<^verbatim>\<open>undefined\<close> at every call. So a poll that finds \<^verbatim>\<open>instance\<close> null rejects with
  the error "not working" and never re-schedules; for every \<open>tries\<close>, \<^verbatim>\<open>getInstance\<close>
  settles at its first check: it resolves with the instance if there is one, and
  rejects otherwise.
\<close>

theorem getInstance_settles_at_first_check:
  "getInstance_checkAgain None None = Reject (JsError ''Error'' ''not working'') \<and>
   getInstance tries instances =
     Some (case instances 0 of
             None \<Rightarrow> Inl (JsError ''Error'' ''not working'')
           | Some d \<Rightarrow> Inr d)"
  by (simp add: getInstance_def getInstance_poll_first getInstance_checkAgain_def js_gt_def)

text \<open>
  C3 as stated says that with \<open>tries = 1\<close> and an \<^verbatim>\<open>instance\<close> that stays null the
  rejection is never reached and \<^verbatim>\<open>getInstance\<close> does not terminate. It terminates,
  with that rejection.
\<close>

theorem getInstance_nontermination_counterexample:
  "getInstance 1 instance_stays_null \<noteq> None \<and>
   getInstance 1 instance_stays_null = Some (Inl (JsError ''Error'' ''not working''))"
  by (simp add: getInstance_def getInstance_poll_first instance_stays_null_def)

text \<open>
  Had \<^verbatim>\<open>checkAgain\<close> been called with the number of tries, the counter that is reset
  at every call would make every poll re-schedule.
\<close>

lemma getInstance_checkAgain_with_argument:
  "1 \<le> t \<Longrightarrow> getInstance_checkAgain None (Some t) = Retry"
  by (simp add: getInstance_checkAgain_def js_gt_def)

text \<open>
  C4. Every \<^verbatim>\<open>downloadDB\<close> message takes the \<^verbatim>\<open>catch\<close> branch: the export call refers
  to \<^verbatim>\<open>sqlite3\<close> and \<^verbatim>\<open>db\<close>, which the module does not define; where the host's global
  scope has neither, the reference throws, the error's message does not contain
  \<^verbatim>\<open>SQLITE_NOMEM\<close>, and the handler only prints the error: it posts nothing, so no
  database blob is sent.
\<close>

theorem downloadDB_takes_catch:
  "get_prop data ''action'' = Inr (Str ''downloadDB'') \<Longrightarrow>
   \<not> global_bound h ''sqlite3'' \<Longrightarrow> \<not> global_bound h ''db'' \<Longrightarrow>
   onmessage h L instance data =
     \<lparr>effects = [ConsoleError [ErrorObj (ReferenceError ''sqlite3'')]],
      new_instance = instance, uncaught = None\<rparr> \<and>
   indexOf (err_message (ReferenceError ''sqlite3'')) ''SQLITE_NOMEM'' = None \<and>
   to_main_posts (effects (onmessage h L instance data)) = []"
  by (simp add: onmessage_def dispatch_def case_downloadDB_def downloadDB_catch_def
      ReferenceError_def)

theorem downloadDB_takes_catch_witness:
  "get_prop (Obj [(''action'', Str ''downloadDB'')]) ''action'' = Inr (Str ''downloadDB'') \<and>
   \<not> global_bound plain_host ''sqlite3'' \<and> \<not> global_bound plain_host ''db'' \<and>
   onmessage plain_host working_lib (Some 2) (Obj [(''action'', Str ''downloadDB'')]) =
     \<lparr>effects = [ConsoleError [ErrorObj (ReferenceError ''sqlite3'')]],
      new_instance = Some 2, uncaught = None\<rparr>"
  using downloadDB_takes_catch
    [of "Obj [(''action'', Str ''downloadDB'')]" plain_host working_lib "Some 2"]
  by (simp add: plain_host_def obj_lookup_def)

text \<open>
  C5. The worker dispatches a message on its \<^verbatim>\<open>action\<close> field alone and recognises
  exactly the four actions \<^verbatim>\<open>createDB\<close>, \<^verbatim>\<open>uploadDB\<close>, \<^verbatim>\<open>downloadDB\<close> and
  \<^verbatim>\<open>executeQuery\<close>; for a message whose action is none of these it only logs the
  message data: no library call, no reply, \<^verbatim>\<open>instance\<close> untouched.
\<close>

theorem onmessage_dispatch_default:
  "(dispatch action = CreateDB \<longleftrightarrow> action = Str ''createDB'') \<and>
   (dispatch action = UploadDB \<longleftrightarrow> action = Str ''uploadDB'') \<and>
   (dispatch action = DownloadDB \<longleftrightarrow> action = Str ''downloadDB'') \<and>
   (dispatch action = ExecuteQuery \<longleftrightarrow> action = Str ''executeQuery'') \<and>
   (get_prop data ''action'' = Inr action \<longrightarrow>
      onmessage h L instance data =
        (case dispatch action of
           CreateDB \<Rightarrow> case_createDB L instance data
         | UploadDB \<Rightarrow> case_uploadDB L instance data
         | DownloadDB \<Rightarrow> case_downloadDB h instance
         | ExecuteQuery \<Rightarrow> case_executeQuery L instance data
         | Default \<Rightarrow>
             \<lparr>effects = [ConsoleLog [data]], new_instance = instance, uncaught = None\<rparr>)) \<and>
   (get_prop data ''action'' = Inr action \<longrightarrow>
    action \<notin> {Str ''createDB'', Str ''uploadDB'', Str ''downloadDB'', Str ''executeQuery''} \<longrightarrow>
      onmessage h L instance data =
        \<lparr>effects = [ConsoleLog [data]], new_instance = instance, uncaught = None\<rparr>)"
  by (simp add: onmessage_def dispatch_def)

theorem onmessage_dispatch_default_witness:
  "get_prop (Obj [(''action'', Str ''runQuery'')]) ''action'' = Inr (Str ''runQuery'') \<and>
   Str ''runQuery'' \<notin> {Str ''createDB'', Str ''uploadDB'', Str ''downloadDB'', Str ''executeQuery''} \<and>
   onmessage plain_host working_lib (Some 2) (Obj [(''action'', Str ''runQuery'')]) =
     \<lparr>effects = [ConsoleLog [Obj [(''action'', Str ''runQuery'')]]],
      new_instance = Some 2, uncaught = None\<rparr>"
  using onmessage_dispatch_default
    [of "Str ''runQuery''" "Obj [(''action'', Str ''runQuery'')]" plain_host working_lib "Some 2"]
  by (simp add: obj_lookup_def dispatch_def)

text \<open>A message that is \<^verbatim>\<open>null\<close> or \<^verbatim>\<open>undefined\<close> has no \<^verbatim>\<open>action\<close> to read: the
  destructuring throws before the switch, and the run has no effect at all.\<close>

lemma onmessage_null:
  "effects (onmessage h L i Null) = [] \<and> new_instance (onmessage h L i Null) = i \<and>
   uncaught (onmessage h L i Null) \<noteq> None"
  by (simp add: onmessage_def)



text \<open>
  C7. The default export of index.js is the \<^verbatim>\<open>api\<close> object only if \<^verbatim>\<open>window.Worker\<close>
  exists and the awaited \<^verbatim>\<open>sqlite3InitModule\<close> succeeds; if the call rejects, or
  workers are unsupported, an error is printed and the default export is the initial
  empty object. The draft src/unnamed/part_000 has the same gate.
\<close>

theorem default_export_gate:
  "(snd (index_default_export window_Worker init) = Api \<longleftrightarrow>
      window_Worker \<and> (\<exists>libVersion. init = Inr libVersion)) \<and>
   (\<not> window_Worker \<longrightarrow>
      index_default_export window_Worker init =
        ([ConsoleError [Str unsupported_notice]], EmptyObject)) \<and>
   (window_Worker \<longrightarrow> init = Inl err \<longrightarrow>
      index_default_export window_Worker init =
        ([LibCall InitModule,
          ConsoleError [Str ''Initialization error:'', Str (err_name err), Str (err_message err)]],
         EmptyObject)) \<and>
   draft_default_export window_Worker init = index_default_export window_Worker init"
  by (cases init) (simp_all add: index_default_export_def draft_default_export_def)

theorem default_export_gate_witness:
  "index_default_export True (Inl (JsError ''RuntimeError'' ''wasm failed'')) =
     ([LibCall InitModule,
       ConsoleError [Str ''Initialization error:'', Str ''RuntimeError'', Str ''wasm failed'']],
      EmptyObject) \<and>
   snd (index_default_export True (Inl (JsError ''RuntimeError'' ''wasm failed''))) \<noteq> Api \<and>
   draft_default_export True (Inl (JsError ''RuntimeError'' ''wasm failed'')) =
     index_default_export True (Inl (JsError ''RuntimeError'' ''wasm failed''))"
  using default_export_gate
    [of True "Inl (JsError ''RuntimeError'' ''wasm failed'')" "JsError ''RuntimeError'' ''wasm failed''"]
  by simp

text \<open>
  C8. In the pooled worker draft, whenever \<^verbatim>\<open>dbPool.length < MAX_POOL_SIZE\<close>,
  \<^verbatim>\<open>getDbConnection\<close> creates a new instance, pushes it and pops it again: the value
  returned is the instance just created, and the pool is left as it was, so no instance
  that sat in the pool is handed out. (If the creation fails, the call rejects.)
\<close>

theorem getDbConnection_returns_new_instance:
  "length dbPool < MAX_POOL_SIZE \<Longrightarrow>
   getDbConnection created meanwhile dbPool =
     (case created of
        Inl e \<Rightarrow> (Inl e, meanwhile dbPool)
      | Inr db \<Rightarrow> (Inr (Some db), meanwhile dbPool))"
  by (simp add: getDbConnection_def pool_pop_snoc split: sum.split)

theorem getDbConnection_returns_new_instance_witness:
  "length [1, 2 :: nat] < MAX_POOL_SIZE \<and>
   getDbConnection (Inr 7) id [1, 2] = (Inr (Some 7), [1, 2])"
  using getDbConnection_returns_new_instance [of "[1, 2]" "Inr 7" id]
  by (simp add: MAX_POOL_SIZE_def)



text \<open>In the draft, an instance enters the pool only when it is released: a query that
  gets a new connection and releases it leaves the pool one instance longer.\<close>

lemma release_after_get_grows_pool:
  "length dbPool < MAX_POOL_SIZE \<Longrightarrow>
   getDbConnection (Inr db) id dbPool = (Inr (Some db), dbPool) \<and>
   releaseDbConnection db (snd (getDbConnection (Inr db) id dbPool)) = (dbPool @ [db], False)"
  by (simp add: getDbConnection_def pool_pop_snoc releaseDbConnection_def)

text \<open>
  C10. \<^verbatim>\<open>executeQuerySync\<close> never substitutes a value into the query text: it runs
  the placeholder replacement only when the text contains no \<^verbatim>\<open>$\<close> (the guard of
  \<^verbatim>\<open>executeQuery\<close> negated), where no pattern \<^verbatim>\<open>$i\<close> occurs and every replacement
  leaves the text as it is. For every input, the message it builds has the \<^verbatim>\<open>sql\<close>
  field equal to \<open>text\<close>, and what it posts, if it gets a worker, is that message
  as JSON.
\<close>

theorem executeQuerySync_sql_is_text:
  "executeQuerySync JSON_stringify h text values =
     (case await_getWorker h of
        Inl e \<Rightarrow> ([], Some e)
      | Inr None \<Rightarrow> ([], Some postMessage_of_undefined)
      | Inr (Some worker) \<Rightarrow>
          ([PostToWorker worker (Str (JSON_stringify (sync_message text)))], None)) \<and>
   get_prop (sync_message text) ''sql'' = Inr (Str text)"
  by (simp add: executeQuerySync_def forEach_replacePlaceholder_noop sync_message_def obj_lookup_def
      split: option.split sum.split)

text \<open>\<^verbatim>\<open>executeQuery\<close>, with the guard the other way round, does substitute.\<close>

lemma executeQuery_substitutes_example:
  "call_effects (executeQuery page_host 5 ''SELECT $1'' (Some [Num 7]) (main initial)) =
     [PostToWorker 0 (exec_message 5 (''SELECT '' @ [CHR 0x27] @ ''7'' @ [CHR 0x27]))]"
  by code_simp

end
